theory Spec2Isabelle
  imports Main
begin

section \<open>The class-management backend (server.js)\<close>

text \<open>
  The server is a set of Express route handlers over Mongoose collections. The embedding
  keeps the document store (users, assignments and the totals record) as an explicit
  value that every handler takes and returns, together with the HTTP response it sends.

  \<^item> A field of a JSON request body is an optional string: \<open>None\<close> is an absent (or
    null) field, \<open>Some s\<close> a string. JavaScript's truthiness test \<^verbatim>\<open>!x\<close> then rejects
    \<open>None\<close> and the empty string.
  \<^item> Dates are numbers (milliseconds); the clock reading of \<^verbatim>\<open>new Date()\<close> and the
    identifier the driver gives a new document are inputs of each request.
  \<^item> \<^verbatim>\<open>mongoose.Schema.Types.ObjectId\<close>, bcrypt and jsonwebtoken are libraries, not
    code of this server: the identifier type is a type parameter \<open>'oid\<close>, and the
    library functions the handlers call are fields of the record \<open>runtime\<close>.
  \<^item> The store never fails by itself (no network errors). The rejections that the
    handlers can cause themselves are modelled: a string that does not cast to an
    identifier, a duplicate \<^verbatim>\<open>_id\<close>, a method call on an absent status array, and
    the schema validation of \<^verbatim>\<open>save()\<close>, which rejects an assignment that holds a
    status entry whose state is not one of the enum values.
\<close>

subsection \<open>Request values\<close>

type_synonym field = "string option"

definition truthy :: "field \<Rightarrow> bool" where
  "truthy v = (case v of None \<Rightarrow> False | Some s \<Rightarrow> s \<noteq> [])"

text \<open>\<^verbatim>\<open>a || b\<close> on a body field with a string default.\<close>

definition or_else :: "field \<Rightarrow> string \<Rightarrow> string" where
  "or_else v d = (case v of None \<Rightarrow> d | Some s \<Rightarrow> if s = [] then d else s)"

subsection \<open>Schemas\<close>

record 'oid user_doc =
  user_id :: 'oid
  email :: string
  password :: string
  name :: field
  pb :: string
  isad :: bool

record 'oid status_entry =
  userId :: "'oid option"
  username :: string
  state :: string
  updatedAt :: nat

record counts_doc =
  completed :: nat
  doing :: nat
  notYetStarted :: nat

record 'oid work_doc =
  work_id :: 'oid
  subject :: string
  work :: string
  deadline :: string
  addedBy :: string
  fileUrl :: string
  createdAt :: nat
  status :: "'oid status_entry list option"
  counts :: "counts_doc option"

record totals_doc =
  totalWorks :: nat
  completed :: nat
  doing :: nat
  notYetStarted :: nat
  updatedAt :: nat

text \<open>
  The collections. \<open>WorkTotals\<close> is only ever read with \<^verbatim>\<open>findOne()\<close> and holds at most
  the one document the server creates, so it is an optional document.
\<close>

record 'oid store =
  users :: "'oid user_doc list"
  works :: "'oid work_doc list"
  totals :: "totals_doc option"

definition empty_store :: "'oid store" where
  "empty_store = \<lparr>users = [], works = [], totals = None\<rparr>"

subsection \<open>Library functions and per-request inputs\<close>

record 'oid token_payload =
  tp_userId :: 'oid
  tp_email :: string
  tp_name :: field
  tp_isad :: bool

record 'oid runtime =
  castObjectId :: "string \<Rightarrow> 'oid option"
  oid_toString :: "'oid \<Rightarrow> string"
  bcrypt_hash :: "string \<Rightarrow> string"
  bcrypt_compare :: "string \<Rightarrow> string \<Rightarrow> bool"
  jwt_sign :: "'oid token_payload \<Rightarrow> string \<Rightarrow> string"
  JWT_SECRET :: field

record 'oid tick =
  now :: nat
  newId :: 'oid

subsection \<open>Store operations\<close>

datatype failure = CastError | ValidationError | TypeError | DuplicateKey

definition status_or_empty :: "'oid work_doc \<Rightarrow> 'oid status_entry list" where
  "status_or_empty w = (case status w of None \<Rightarrow> [] | Some ss \<Rightarrow> ss)"

text \<open>
  The validation that \<^verbatim>\<open>doc.save()\<close> runs before it writes. The schema of a status
  entry (lines 72 to 76) restricts \<open>state\<close> to three values, and an assignment that
  holds an entry with any other state does not validate.
\<close>

definition validates :: "'oid work_doc \<Rightarrow> bool" where
  "validates w =
     list_all (\<lambda>s. state s \<in> set [''completed'', ''doing'', ''not yet started''])
       (status_or_empty w)"

text \<open>The write of a document that was read from the collection: it replaces the stored
  document with the same \<^verbatim>\<open>_id\<close>.\<close>

definition replace_work :: "'oid store \<Rightarrow> 'oid work_doc \<Rightarrow> 'oid store" where
  "replace_work st w =
     st\<lparr>works := map (\<lambda>d. if work_id d = work_id w then w else d) (works st)\<rparr>"

text \<open>\<^verbatim>\<open>doc.save()\<close> of a document that was read from the collection: it rejects a
  document that does not validate and writes nothing then.\<close>

definition save_work :: "'oid store \<Rightarrow> 'oid work_doc \<Rightarrow> failure + 'oid store" where
  "save_work st w = (if validates w then Inr (replace_work st w) else Inl ValidationError)"

text \<open>\<^verbatim>\<open>doc.save()\<close> of a new document: validation first, and the collection rejects a
  duplicate \<^verbatim>\<open>_id\<close>.\<close>

definition insert_work :: "'oid store \<Rightarrow> 'oid work_doc \<Rightarrow> failure + 'oid store" where
  "insert_work st w =
     (if \<not> validates w then Inl ValidationError
      else if work_id w \<in> set (map work_id (works st)) then Inl DuplicateKey
      else Inr (st\<lparr>works := works st @ [w]\<rparr>))"

definition insert_user :: "'oid store \<Rightarrow> 'oid user_doc \<Rightarrow> failure + 'oid store" where
  "insert_user st u =
     (if user_id u \<in> set (map user_id (users st)) then Inl DuplicateKey
      else Inr (st\<lparr>users := users st @ [u]\<rparr>))"

definition findOne_user :: "'oid store \<Rightarrow> string \<Rightarrow> 'oid user_doc option" where
  "findOne_user st e = find (\<lambda>u. email u = e) (users st)"

text \<open>\<^verbatim>\<open>Work.findById(id)\<close> casts the route parameter first; the cast throws on a string
  that is no identifier.\<close>

definition findById :: "'oid runtime \<Rightarrow> 'oid store \<Rightarrow> string \<Rightarrow> failure + 'oid work_doc option" where
  "findById L st wid =
     (case castObjectId L wid of
        None \<Rightarrow> Inl CastError
      | Some i \<Rightarrow> Inr (find (\<lambda>d. work_id d = i) (works st)))"

subsection \<open>Helper routines\<close>

text \<open>The body of the \<^verbatim>\<open>forEach\<close> callback of \<^verbatim>\<open>recalcAndSaveWorkCounts\<close>.\<close>

definition count_entry :: "'oid status_entry \<Rightarrow> counts_doc \<Rightarrow> counts_doc" where
  "count_entry s c =
     (if state s = ''completed'' then c\<lparr>counts_doc.completed := counts_doc.completed c + 1\<rparr>
      else if state s = ''doing'' then c\<lparr>counts_doc.doing := counts_doc.doing c + 1\<rparr>
      else c\<lparr>counts_doc.notYetStarted := counts_doc.notYetStarted c + 1\<rparr>)"

text \<open>
  Lines 127 to 139 of \<^verbatim>\<open>recalcAndSaveWorkCounts\<close>, on the document in memory: the tally
  over the status array (an absent array read as empty) and its assignment to
  \<^verbatim>\<open>workDoc.counts\<close>.
\<close>

definition recalc_counts :: "'oid work_doc \<Rightarrow> 'oid work_doc" where
  "recalc_counts w =
     (let c = fold count_entry (status_or_empty w)
                \<lparr>counts_doc.completed = 0, counts_doc.doing = 0, counts_doc.notYetStarted = 0\<rparr>
      in w\<lparr>counts := Some \<lparr>counts_doc.completed = counts_doc.completed c,
                             counts_doc.doing = counts_doc.doing c,
                             counts_doc.notYetStarted = counts_doc.notYetStarted c\<rparr>\<rparr>)"

text \<open>
  The whole function: the null guard, the tally, then \<^verbatim>\<open>await workDoc.save()\<close>. When the
  save rejects, the function throws: nothing is stored and nothing is returned.
\<close>

definition recalcAndSaveWorkCounts ::
  "'oid store \<Rightarrow> 'oid work_doc option \<Rightarrow> failure + ('oid store \<times> 'oid work_doc option)" where
  "recalcAndSaveWorkCounts st workDoc =
     (case workDoc of
        None \<Rightarrow> Inr (st, None)
      | Some w \<Rightarrow>
          let w' = recalc_counts w
          in (case save_work st w' of
                Inl err \<Rightarrow> Inl err
              | Inr st' \<Rightarrow> Inr (st', Some w')))"

text \<open>
  The \<^verbatim>\<open>$group\<close> stage of \<^verbatim>\<open>Work.aggregate\<close> with \<^verbatim>\<open>_id: null\<close>: one accumulator row
  over all documents, and no row at all when the collection is empty. \<^verbatim>\<open>$sum\<close> adds
  nothing for a document whose field is missing.
\<close>

record agg_row =
  totalWorks :: nat
  completed :: nat
  doing :: nat
  notYetStarted :: nat

definition counts_field :: "(counts_doc \<Rightarrow> nat) \<Rightarrow> 'oid work_doc \<Rightarrow> nat" where
  "counts_field f w = (case counts w of None \<Rightarrow> 0 | Some c \<Rightarrow> f c)"

definition group_step :: "'oid work_doc \<Rightarrow> agg_row \<Rightarrow> agg_row" where
  "group_step w a =
     \<lparr>agg_row.totalWorks = agg_row.totalWorks a + 1,
      agg_row.completed = agg_row.completed a + counts_field counts_doc.completed w,
      agg_row.doing = agg_row.doing a + counts_field counts_doc.doing w,
      agg_row.notYetStarted = agg_row.notYetStarted a + counts_field counts_doc.notYetStarted w\<rparr>"

definition aggregate_works :: "'oid store \<Rightarrow> agg_row list" where
  "aggregate_works st =
     (if works st = [] then []
      else [fold group_step (works st)
              \<lparr>agg_row.totalWorks = 0, agg_row.completed = 0, agg_row.doing = 0,
               agg_row.notYetStarted = 0\<rparr>])"

text \<open>\<^verbatim>\<open>x || 0\<close> on a number.\<close>

definition or0 :: "nat \<Rightarrow> nat" where
  "or0 x = (if x = 0 then 0 else x)"

text \<open>\<^verbatim>\<open>new WorkTotals()\<close> with the schema defaults.\<close>

definition new_totals :: "nat \<Rightarrow> totals_doc" where
  "new_totals n =
     \<lparr>totals_doc.totalWorks = 0, totals_doc.completed = 0, totals_doc.doing = 0,
      totals_doc.notYetStarted = 0, totals_doc.updatedAt = n\<rparr>"

definition recomputeAndSaveGlobalTotals :: "nat \<Rightarrow> 'oid store \<Rightarrow> 'oid store \<times> totals_doc" where
  "recomputeAndSaveGlobalTotals n st =
     (let agg = aggregate_works st;
          totalsDoc = (case totals st of None \<Rightarrow> new_totals n | Some d \<Rightarrow> d);
          totalsDoc =
            (case agg of
               a # _ \<Rightarrow>
                 totalsDoc\<lparr>totals_doc.totalWorks := or0 (agg_row.totalWorks a),
                           totals_doc.completed := or0 (agg_row.completed a),
                           totals_doc.doing := or0 (agg_row.doing a),
                           totals_doc.notYetStarted := or0 (agg_row.notYetStarted a)\<rparr>
             | [] \<Rightarrow>
                 totalsDoc\<lparr>totals_doc.totalWorks := 0, totals_doc.completed := 0,
                           totals_doc.doing := 0, totals_doc.notYetStarted := 0\<rparr>);
          totalsDoc = totalsDoc\<lparr>totals_doc.updatedAt := n\<rparr>
      in (st\<lparr>totals := Some totalsDoc\<rparr>, totalsDoc))"

definition isValidState :: "field \<Rightarrow> bool" where
  "isValidState s \<longleftrightarrow> s \<in> set [Some ''completed'', Some ''doing'', Some ''not yet started'']"

subsection \<open>Responses\<close>

datatype 'oid jval =
    JBool bool
  | JStr string
  | JErr failure
  | JWork "'oid work_doc option"
  | JTotals "totals_doc option"
  | JCounts "counts_doc option"

record 'oid response =
  status_code :: nat
  json :: "(string \<times> 'oid jval) list"

definition respond :: "nat \<Rightarrow> (string \<times> 'oid jval) list \<Rightarrow> 'oid response" where
  "respond c b = \<lparr>status_code = c, json = b\<rparr>"

text \<open>The \<^verbatim>\<open>catch\<close> block that every handler has, with the handler's own message.\<close>

definition caught :: "string \<Rightarrow> failure \<Rightarrow> 'oid response" where
  "caught msg err =
     respond 500 [(''success'', JBool False), (''message'', JStr msg), (''error'', JErr err)]"

type_synonym reqbody = "string \<Rightarrow> field"

definition str_of :: "field \<Rightarrow> string" where
  "str_of v = (case v of None \<Rightarrow> [] | Some s \<Rightarrow> s)"

subsection \<open>Routes\<close>

text \<open>
  The handlers of the routes on users and assignments. The health check, the two upload
  routes and the listings of materials, users and assignments are not embedded.
\<close>

definition api_register ::
  "'oid runtime \<Rightarrow> 'oid tick \<Rightarrow> reqbody \<Rightarrow> 'oid store \<Rightarrow> 'oid store \<times> 'oid response" where
  "api_register L t b st =
     (let email = b ''email''; password = b ''password''; name = b ''name'' in
      if \<not> truthy email \<or> \<not> truthy password
      then (st, respond 400 [(''message'', JStr ''email & password required'')])
      else
        (case findOne_user st (str_of email) of
           Some existing \<Rightarrow> (st, respond 400 [(''message'', JStr ''Email already exists'')])
         | None \<Rightarrow>
             let hashed = bcrypt_hash L (str_of password);
                 newUser = \<lparr>user_id = newId t, email = str_of email, password = hashed,
                            name = name, pb = str_of password, isad = False\<rparr>
             in (case insert_user st newUser of
                   Inl err \<Rightarrow> (st, caught ''Registration failed'' err)
                 | Inr st' \<Rightarrow>
                     (st', respond 201 [(''success'', JBool True),
                                        (''message'', JStr ''User registered'')]))))"

definition api_login ::
  "'oid runtime \<Rightarrow> reqbody \<Rightarrow> 'oid store \<Rightarrow> 'oid store \<times> 'oid response" where
  "api_login L b st =
     (let email = b ''email''; password = b ''password'' in
      if \<not> truthy email \<or> \<not> truthy password
      then (st, respond 400 [(''message'', JStr ''email & password required'')])
      else
        (case findOne_user st (str_of email) of
           None \<Rightarrow> (st, respond 401 [(''message'', JStr ''Invalid credentials'')])
         | Some user \<Rightarrow>
             if \<not> bcrypt_compare L (str_of password) (user_doc.password user)
             then (st, respond 401 [(''message'', JStr ''Invalid credentials'')])
             else
               let token = jwt_sign L
                     \<lparr>tp_userId = user_id user, tp_email = user_doc.email user,
                      tp_name = user_doc.name user, tp_isad = isad user\<rparr>
                     (or_else (JWT_SECRET L) ''supersecret'')
               in (st, respond 200 [(''success'', JBool True), (''token'', JStr token)])))"

definition api_work_add ::
  "'oid runtime \<Rightarrow> 'oid tick \<Rightarrow> reqbody \<Rightarrow> 'oid store \<Rightarrow> 'oid store \<times> 'oid response" where
  "api_work_add L t b st =
     (let subject = b ''subject''; workText = b ''work''; deadline = b ''deadline'';
          addedBy = b ''addedBy''; fileUrl = b ''fileUrl'' in
      if \<not> truthy subject \<or> \<not> truthy workText \<or> \<not> truthy deadline
      then (st, respond 400 [(''success'', JBool False),
                             (''message'', JStr ''subject, work, deadline required'')])
      else
        let newWork =
              \<lparr>work_id = newId t, subject = str_of subject, work = str_of workText,
               deadline = str_of deadline, addedBy = or_else addedBy ''Admin'',
               fileUrl = or_else fileUrl [], createdAt = now t, status = Some [],
               counts = Some \<lparr>counts_doc.completed = 0, counts_doc.doing = 0,
                              counts_doc.notYetStarted = 0\<rparr>\<rparr>
        in (case insert_work st newWork of
              Inl err \<Rightarrow> (st, caught ''Failed to add work'' err)
            | Inr st1 \<Rightarrow>
                let (st2, totals) = recomputeAndSaveGlobalTotals (now t) st1
                in (st2, respond 200 [(''success'', JBool True), (''message'', JStr ''Work added''),
                                      (''newWork'', JWork (Some newWork)),
                                      (''totals'', JTotals (Some totals))])))"

definition api_work_delete ::
  "'oid runtime \<Rightarrow> 'oid tick \<Rightarrow> string \<Rightarrow> 'oid store \<Rightarrow> 'oid store \<times> 'oid response" where
  "api_work_delete L t wid st =
     (case findById L st wid of
        Inl err \<Rightarrow> (st, caught ''Error deleting work'' err)
      | Inr None \<Rightarrow>
          (st, respond 404 [(''success'', JBool False), (''message'', JStr ''Work not found'')])
      | Inr (Some removed) \<Rightarrow>
          let st1 = st\<lparr>works := remove1 removed (works st)\<rparr>;
              (st2, totals) = recomputeAndSaveGlobalTotals (now t) st1
          in (st2, respond 200 [(''success'', JBool True), (''message'', JStr ''Work deleted''),
                                (''totals'', JTotals (Some totals))]))"

text \<open>
  \<^verbatim>\<open>Array.prototype.findIndex\<close>: the first index whose element satisfies the test;
  \<open>None\<close> stands for the result \<^verbatim>\<open>-1\<close>.
\<close>

fun findIndex :: "('a \<Rightarrow> bool) \<Rightarrow> 'a list \<Rightarrow> nat option" where
  "findIndex p [] = None"
| "findIndex p (x # xs) = (if p x then Some 0 else map_option Suc (findIndex p xs))"

text \<open>
  Lines 425 to 435 of the status handler, on the document in memory. A stored identifier
  is compared through its \<^verbatim>\<open>toString()\<close> with the string of the request. A pushed entry
  is cast by the schema: its \<open>userId\<close> becomes an identifier, and when the string does
  not cast, the document is invalid and its \<^verbatim>\<open>save()\<close> rejects; nothing is stored in
  between, so the model raises the rejection here. Calling \<^verbatim>\<open>findIndex\<close> on an absent
  array throws.
\<close>

definition upsert_status ::
  "'oid runtime \<Rightarrow> 'oid tick \<Rightarrow> string \<Rightarrow> string \<Rightarrow> string \<Rightarrow> 'oid work_doc
     \<Rightarrow> failure + 'oid work_doc" where
  "upsert_status L t uid un stt workDoc =
     (case status workDoc of
        None \<Rightarrow> Inl TypeError
      | Some ss \<Rightarrow>
          (case findIndex (\<lambda>s. map_option (oid_toString L) (userId s) = Some uid) ss of
             Some existingIndex \<Rightarrow>
               Inr (workDoc\<lparr>status := Some (ss[existingIndex :=
                      (ss ! existingIndex)\<lparr>state := stt, username := un,
                                             status_entry.updatedAt := now t\<rparr>])\<rparr>)
           | None \<Rightarrow>
               (case castObjectId L uid of
                  None \<Rightarrow> Inl ValidationError
                | Some i \<Rightarrow>
                    Inr (workDoc\<lparr>status := Some (ss @
                           [\<lparr>userId = Some i, username = un, state = stt,
                             status_entry.updatedAt = now t\<rparr>])\<rparr>))))"

definition api_work_status_post ::
  "'oid runtime \<Rightarrow> 'oid tick \<Rightarrow> string \<Rightarrow> reqbody \<Rightarrow> 'oid store \<Rightarrow> 'oid store \<times> 'oid response" where
  "api_work_status_post L t workId b st =
     (let userId = b ''userId''; username = b ''username''; state = b ''state'' in
      if \<not> truthy userId \<or> \<not> truthy username \<or> \<not> truthy state
      then (st, respond 400 [(''success'', JBool False),
                             (''message'', JStr ''userId, username, state required'')])
      else if \<not> isValidState state
      then (st, respond 400 [(''success'', JBool False), (''message'', JStr ''Invalid state'')])
      else
        (case findById L st workId of
           Inl err \<Rightarrow> (st, caught ''Failed to update status'' err)
         | Inr None \<Rightarrow>
             (st, respond 404 [(''success'', JBool False), (''message'', JStr ''Work not found'')])
         | Inr (Some workDoc) \<Rightarrow>
             (case upsert_status L t (str_of userId) (str_of username) (str_of state) workDoc of
                Inl err \<Rightarrow> (st, caught ''Failed to update status'' err)
              | Inr workDoc' \<Rightarrow>
                  (case recalcAndSaveWorkCounts st (Some workDoc') of
                     Inl err \<Rightarrow> (st, caught ''Failed to update status'' err)
                   | Inr (st1, saved) \<Rightarrow>
                       let (st2, totals) = recomputeAndSaveGlobalTotals (now t) st1
                       in (st2, respond 200 [(''success'', JBool True),
                                             (''message'', JStr ''Status updated''),
                                             (''work'', JWork saved),
                                             (''totals'', JTotals (Some totals))])))))"

definition api_work_status_get ::
  "'oid runtime \<Rightarrow> string \<Rightarrow> 'oid store \<Rightarrow> 'oid store \<times> 'oid response" where
  "api_work_status_get L workId st =
     (case findById L st workId of
        Inl err \<Rightarrow> (st, caught ''Error fetching counts'' err)
      | Inr None \<Rightarrow>
          (st, respond 404 [(''success'', JBool False), (''message'', JStr ''Work not found'')])
      | Inr (Some workDoc) \<Rightarrow>
          (case (if counts workDoc = None then recalcAndSaveWorkCounts st (Some workDoc)
                 else Inr (st, Some workDoc)) of
             Inl err \<Rightarrow> (st, caught ''Error fetching counts'' err)
           | Inr (st1, workDoc1) \<Rightarrow>
               (st1, respond 200 [(''success'', JBool True),
                                  (''counts'', JCounts (case workDoc1 of None \<Rightarrow> None
                                                       | Some d \<Rightarrow> counts d))])))"

definition api_work_totals_get :: "'oid store \<Rightarrow> 'oid store \<times> 'oid response" where
  "api_work_totals_get st =
     (st, respond 200 [(''success'', JBool True), (''totals'', JTotals (totals st))])"

text \<open>
  The forced recompute. Each call of \<^verbatim>\<open>recalcAndSaveWorkCounts\<close> under \<^verbatim>\<open>Promise.all\<close>
  writes the one document it was given, so the calls are run one after the other
  over the documents that \<^verbatim>\<open>Work.find()\<close> returned. \<^verbatim>\<open>Array.map\<close> starts every call, and
  a call that rejects stops no other: the documents that validate are written, the
  rejections are collected, and with a rejection \<^verbatim>\<open>Promise.all\<close> rejects, so that the
  handler's \<^verbatim>\<open>catch\<close> answers and the totals are not recomputed.
\<close>

definition recalc_each ::
  "'oid work_doc \<Rightarrow> 'oid store \<times> failure list \<Rightarrow> 'oid store \<times> failure list" where
  "recalc_each w acc =
     (case recalcAndSaveWorkCounts (fst acc) (Some w) of
        Inl err \<Rightarrow> (fst acc, snd acc @ [err])
      | Inr (st', d) \<Rightarrow> (st', snd acc))"

definition api_work_recompute_totals ::
  "'oid tick \<Rightarrow> 'oid store \<Rightarrow> 'oid store \<times> 'oid response" where
  "api_work_recompute_totals t st =
     (let allWorks = works st;
          (st1, rejected) = fold recalc_each allWorks (st, [])
      in (case rejected of
            err # _ \<Rightarrow> (st1, caught ''Failed to recompute totals'' err)
          | [] \<Rightarrow>
              let (st2, totals) = recomputeAndSaveGlobalTotals (now t) st1
              in (st2, respond 200 [(''success'', JBool True),
                                    (''message'', JStr ''Recomputed totals''),
                                    (''totals'', JTotals (Some totals))])))"

subsection \<open>The server as a transition system\<close>

datatype request =
    PostRegister reqbody
  | PostLogin reqbody
  | PostWorkAdd reqbody
  | DeleteWork string
  | PostWorkStatus string reqbody
  | GetWorkStatus string
  | GetWorkTotals
  | PostRecomputeTotals

fun handle ::
  "'oid runtime \<Rightarrow> 'oid tick \<Rightarrow> request \<Rightarrow> 'oid store \<Rightarrow> 'oid store \<times> 'oid response" where
  "handle L t (PostRegister b) st = api_register L t b st"
| "handle L t (PostLogin b) st = api_login L b st"
| "handle L t (PostWorkAdd b) st = api_work_add L t b st"
| "handle L t (DeleteWork wid) st = api_work_delete L t wid st"
| "handle L t (PostWorkStatus wid b) st = api_work_status_post L t wid b st"
| "handle L t (GetWorkStatus wid) st = api_work_status_get L wid st"
| "handle L t GetWorkTotals st = api_work_totals_get st"
| "handle L t PostRecomputeTotals st = api_work_recompute_totals t st"

fun run :: "'oid runtime \<Rightarrow> ('oid tick \<times> request) list \<Rightarrow> 'oid store \<Rightarrow> 'oid store" where
  "run L [] st = st"
| "run L ((t, r) # rs) st = run L rs (fst (handle L t r st))"

subsection \<open>Auxiliary notions for the properties\<close>

text \<open>The three tallies of a status list, by direct counting.\<close>

definition tally :: "'oid status_entry list \<Rightarrow> counts_doc" where
  "tally ss =
     \<lparr>counts_doc.completed = length (filter (\<lambda>s. state s = ''completed'') ss),
      counts_doc.doing = length (filter (\<lambda>s. state s = ''doing'') ss),
      counts_doc.notYetStarted =
        length (filter (\<lambda>s. state s \<noteq> ''completed'' \<and> state s \<noteq> ''doing'') ss)\<rparr>"

definition recounted :: "'oid work_doc \<Rightarrow> 'oid work_doc" where
  "recounted w = w\<lparr>counts := Some (tally (status_or_empty w))\<rparr>"

text \<open>The cached counts of an assignment are present and add up to the length of its
  status list.\<close>

definition counts_consistent :: "'oid work_doc \<Rightarrow> bool" where
  "counts_consistent w =
     (case counts w of
        None \<Rightarrow> False
      | Some c \<Rightarrow> counts_doc.completed c + counts_doc.doing c + counts_doc.notYetStarted c
                    = length (status_or_empty w))"

text \<open>No two status entries of an assignment carry the same stored user identifier.\<close>

definition ids_distinct :: "'oid work_doc \<Rightarrow> bool" where
  "ids_distinct w = distinct (map userId (status_or_empty w))"

text \<open>
  A request string is in canonical form when the identifier it casts to prints as the
  same string. A string that does not cast at all is never stored.
\<close>

definition canonical :: "'oid runtime \<Rightarrow> string \<Rightarrow> bool" where
  "canonical L u = (case castObjectId L u of None \<Rightarrow> True | Some i \<Rightarrow> oid_toString L i = u)"

fun canonical_request :: "'oid runtime \<Rightarrow> request \<Rightarrow> bool" where
  "canonical_request L (PostWorkStatus wid b) = canonical L (str_of (b ''userId''))"
| "canonical_request L r = True"

fun is_auth :: "request \<Rightarrow> bool" where
  "is_auth (PostRegister b) = True"
| "is_auth (PostLogin b) = True"
| "is_auth r = False"

definition totals_fields :: "totals_doc \<Rightarrow> nat \<times> nat \<times> nat \<times> nat" where
  "totals_fields d =
     (totals_doc.totalWorks d, totals_doc.completed d, totals_doc.doing d,
      totals_doc.notYetStarted d)"


subsection \<open>A concrete runtime and concrete documents\<close>

text \<open>
  An instance of the library record, used to evaluate the handlers on concrete requests.
  Identifiers are the 24 hexadecimal digits that an ObjectId prints: the cast accepts
  digits of either case, and the identifier prints in lower case, as the ObjectId of the
  bson package does. The password functions and the token are stand-ins.
\<close>

definition is_hex :: "char \<Rightarrow> bool" where
  "is_hex c \<longleftrightarrow> c \<in> set ''0123456789abcdefABCDEF''"

definition lower_hex :: "char \<Rightarrow> char" where
  "lower_hex c = (case map_of (zip ''ABCDEF'' ''abcdef'') c of None \<Rightarrow> c | Some d \<Rightarrow> d)"

definition hex_runtime :: "string runtime" where
  "hex_runtime =
     \<lparr>castObjectId =
        (\<lambda>s. if length s = 24 \<and> list_all is_hex s then Some (map lower_hex s) else None),
      oid_toString = (\<lambda>i. i),
      bcrypt_hash = (\<lambda>p. ''$2a$10$'' @ p),
      bcrypt_compare = (\<lambda>p h. h = ''$2a$10$'' @ p),
      jwt_sign = (\<lambda>p secret. ''jwt''),
      JWT_SECRET = None\<rparr>"

definition entry :: "string \<Rightarrow> string \<Rightarrow> string status_entry" where
  "entry u s = \<lparr>userId = Some u, username = ''n'', state = s, status_entry.updatedAt = 0\<rparr>"

definition work1 :: "string status_entry list option \<Rightarrow> counts_doc option \<Rightarrow> string work_doc" where
  "work1 ss c =
     \<lparr>work_id = ''000000000000000000000001'', subject = ''Math'', work = ''HW1'',
      deadline = ''2024-01-01'', addedBy = ''Admin'', fileUrl = [], createdAt = 0,
      status = ss, counts = c\<rparr>"

definition work2 :: "string work_doc" where
  "work2 =
     \<lparr>work_id = ''000000000000000000000002'', subject = ''Physics'', work = ''Lab'',
      deadline = ''2024-02-01'', addedBy = ''Admin'', fileUrl = [], createdAt = 5,
      status = Some [entry ''0000000000000000000000a1'' ''completed'',
                     entry ''0000000000000000000000a2'' ''doing''],
      counts = Some \<lparr>counts_doc.completed = 7, counts_doc.doing = 7,
                     counts_doc.notYetStarted = 7\<rparr>\<rparr>"

definition drifted :: "string work_doc" where
  "drifted = work1 (Some [entry ''0000000000000000000000a1'' ''completed'',
                          entry ''0000000000000000000000a2'' ''doing'',
                          entry ''0000000000000000000000a3'' ''paused'']) None"

definition store1 :: "string work_doc list \<Rightarrow> string store" where
  "store1 ws = \<lparr>users = [], works = ws, totals = None\<rparr>"

definition stale_totals :: totals_doc where
  "stale_totals =
     \<lparr>totals_doc.totalWorks = 3, totals_doc.completed = 4, totals_doc.doing = 5,
      totals_doc.notYetStarted = 6, totals_doc.updatedAt = 2\<rparr>"

definition alice :: "string user_doc" where
  "alice = \<lparr>user_id = ''0000000000000000000000a1'', email = ''alice@example.org'',
            password = ''$2a$10$secret'', name = Some ''Alice'', pb = ''secret'', isad = False\<rparr>"

definition body :: "(string \<times> string) list \<Rightarrow> reqbody" where
  "body kvs = map_of kvs"

definition at :: "nat \<Rightarrow> string tick" where
  "at n = \<lparr>now = n, newId = ''000000000000000000000001''\<rparr>"

definition hw1 :: request where
  "hw1 = PostWorkAdd
           (body [(''subject'', ''Math''), (''work'', ''HW1''), (''deadline'', ''2024-01-01'')])"

definition status_body :: "string \<Rightarrow> string \<Rightarrow> reqbody" where
  "status_body u s = body [(''userId'', u), (''username'', ''n''), (''state'', s)]"

definition set_status :: "string \<Rightarrow> string \<Rightarrow> request" where
  "set_status u s = PostWorkStatus ''000000000000000000000001'' (status_body u s)"

section \<open>Properties\<close>

lemmas eval_defs =
  run.simps handle.simps api_work_add_def api_work_status_post_def api_register_def api_login_def
  api_work_delete_def api_work_status_get_def api_work_totals_get_def api_work_recompute_totals_def
  upsert_status_def recalcAndSaveWorkCounts_def recalc_counts_def recalc_each_def count_entry_def
  status_or_empty_def validates_def replace_work_def drifted_def
  recomputeAndSaveGlobalTotals_def aggregate_works_def group_step_def counts_field_def or0_def
  new_totals_def save_work_def insert_work_def insert_user_def findById_def findOne_user_def
  isValidState_def truthy_def str_of_def or_else_def respond_def caught_def
  hex_runtime_def is_hex_def lower_hex_def body_def at_def hw1_def set_status_def status_body_def
  empty_store_def store1_def work1_def work2_def entry_def stale_totals_def alice_def Let_def

subsection \<open>The per-assignment recalculation\<close>

lemma fold_count_entry:
  "fold count_entry ss c =
     \<lparr>counts_doc.completed =
        counts_doc.completed c + length (filter (\<lambda>s. state s = ''completed'') ss),
      counts_doc.doing = counts_doc.doing c + length (filter (\<lambda>s. state s = ''doing'') ss),
      counts_doc.notYetStarted = counts_doc.notYetStarted c
        + length (filter (\<lambda>s. state s \<noteq> ''completed'' \<and> state s \<noteq> ''doing'') ss)\<rparr>"
  by (induction ss arbitrary: c) (simp_all add: count_entry_def)

lemma recalc_counts_recounted: "recalc_counts w = recounted w"
  by (simp add: recalc_counts_def fold_count_entry tally_def recounted_def Let_def)

lemma status_recounted [simp]: "status_or_empty (recounted w) = status_or_empty w"
  by (simp add: recounted_def status_or_empty_def)

lemma validates_recounted [simp]: "validates (recounted w) = validates w"
  by (simp add: validates_def)

lemma recounted_twice [simp]: "recounted (recounted w) = recounted w"
  by (simp add: recounted_def status_or_empty_def)

lemma work_id_recounted [simp]: "work_id (recounted w) = work_id w"
  by (simp add: recounted_def)

lemma recalc_Some:
  "recalcAndSaveWorkCounts st (Some w) =
     (if validates w then Inr (replace_work st (recounted w), Some (recounted w))
      else Inl ValidationError)"
  by (simp add: recalcAndSaveWorkCounts_def recalc_counts_recounted save_work_def Let_def)

lemma recalc_None: "recalcAndSaveWorkCounts st None = Inr (st, None)"
  by (simp add: recalcAndSaveWorkCounts_def)

lemma tally_sum:
  "counts_doc.completed (tally ss) + counts_doc.doing (tally ss)
     + counts_doc.notYetStarted (tally ss) = length ss"
  by (induction ss) (auto simp: tally_def)

lemma replace_work_idem: "replace_work (replace_work st w) w = replace_work st w"
  by (simp add: replace_work_def o_def cong: map_cong)




text \<open>
  Claim C5. The recalculation is idempotent: calling it again on the document it
  returned, with no status change in between, returns the same document with the same
  counts and writes the store to the value it already has. Where the save rejects, the
  call repeated on the document in memory rejects in the same way, on the same store.
\<close>

theorem recalc_idempotent:
  "(case recalcAndSaveWorkCounts st workDoc of
      Inr (st1, d1) \<Rightarrow> recalcAndSaveWorkCounts st1 d1 = Inr (st1, d1)
    | Inl err \<Rightarrow> recalcAndSaveWorkCounts st (map_option recalc_counts workDoc) = Inl err)"
proof (cases workDoc)
  case None
  then show ?thesis by (simp add: recalc_None)
next
  case (Some w)
  then show ?thesis
    by (simp add: recalc_Some recalc_counts_recounted replace_work_idem)
qed

theorem recalc_idempotent_witness:
  "(case recalcAndSaveWorkCounts (store1 [work1 (Some [entry ''a'' ''doing'']) None])
           (Some (work1 (Some [entry ''a'' ''doing'']) None)) of
      Inr (st1, d1) \<Rightarrow>
        recalcAndSaveWorkCounts st1 d1 = Inr (st1, d1) \<and>
        map_option counts d1 = Some (Some \<lparr>counts_doc.completed = 0, counts_doc.doing = 1,
                                           counts_doc.notYetStarted = 0\<rparr>)
    | Inl err \<Rightarrow> False)"
  using recalc_idempotent [where st = "store1 [work1 (Some [entry ''a'' ''doing'']) None]"
      and workDoc = "Some (work1 (Some [entry ''a'' ''doing'']) None)"]
  by (simp add: recalc_Some recounted_def tally_def status_or_empty_def validates_def work1_def
        entry_def split: prod.splits sum.splits if_splits)



subsection \<open>Where the documents of the store come from\<close>

lemma works_recompute [simp]: "works (fst (recomputeAndSaveGlobalTotals n st)) = works st"
  by (simp add: recomputeAndSaveGlobalTotals_def Let_def)

lemma set_replace_work: "set (works (replace_work st w)) \<subseteq> insert w (set (works st))"
  by (auto simp: replace_work_def)

lemma recalc_each_eq:
  "recalc_each w acc =
     (if validates w then (replace_work (fst acc) (recounted w), snd acc)
      else (fst acc, snd acc @ [ValidationError]))"
  by (simp add: recalc_each_def recalc_Some)

lemma fold_recalc_works:
  "w' \<in> set (works (fst (fold recalc_each ws acc)))
   \<Longrightarrow> w' \<in> set (works (fst acc)) \<or> (\<exists>w\<in>set ws. w' = recounted w)"
proof (induction ws arbitrary: acc)
  case Nil
  then show ?case by simp
next
  case (Cons a ws)
  from Cons.prems
  have "w' \<in> set (works (fst (recalc_each a acc))) \<or> (\<exists>w\<in>set ws. w' = recounted w)"
    using Cons.IH [of "recalc_each a acc"] by simp
  then show ?case using set_replace_work [of "fst acc" "recounted a"]
    by (auto simp: recalc_each_eq split: if_splits)
qed

lemma find_in_set: "find p xs = Some x \<Longrightarrow> x \<in> set xs"
  by (induction xs) (auto split: if_splits)

lemma find_Some_holds: "find p xs = Some x \<Longrightarrow> p x"
  by (induction xs) (auto split: if_splits)

lemma find_map_replace:
  "find p xs = Some x \<Longrightarrow> p y \<Longrightarrow> find p (map (\<lambda>d. if p d then y else d) xs) = Some y"
  by (induction xs) (auto split: if_splits)

lemma findById_in_works: "findById L st wid = Inr (Some w) \<Longrightarrow> w \<in> set (works st)"
  by (auto simp: findById_def split: option.splits dest: find_in_set)

lemma register_works: "works (fst (api_register L t b st)) = works st"
  by (auto simp: api_register_def Let_def insert_user_def split: option.splits sum.splits)

lemma login_works: "works (fst (api_login L b st)) = works st"
  by (auto simp: api_login_def Let_def split: option.splits)

lemma add_works:
  "w' \<in> set (works (fst (api_work_add L t b st)))
   \<Longrightarrow> w' \<in> set (works st) \<or> (status w' = Some [] \<and> counts w' = Some (tally []))"
  by (auto simp: api_work_add_def Let_def insert_work_def tally_def case_prod_beta
           split: sum.splits if_splits)

lemma delete_works:
  "w' \<in> set (works (fst (api_work_delete L t wid st))) \<Longrightarrow> w' \<in> set (works st)"
  by (auto simp: api_work_delete_def Let_def case_prod_beta
           split: sum.splits option.splits dest: set_remove1_subset [THEN subsetD])

lemma status_post_works:
  "w' \<in> set (works (fst (api_work_status_post L t wid b st)))
   \<Longrightarrow> w' \<in> set (works st) \<or>
       (\<exists>w\<in>set (works st). \<exists>w2.
          upsert_status L t (str_of (b ''userId'')) (str_of (b ''username''))
            (str_of (b ''state'')) w = Inr w2 \<and> w' = recounted w2)"
  using set_replace_work
  by (fastforce simp: api_work_status_post_def Let_def case_prod_beta recalc_Some
           split: sum.splits option.splits if_splits dest: findById_in_works)

lemma status_get_works:
  "w' \<in> set (works (fst (api_work_status_get L wid st)))
   \<Longrightarrow> w' \<in> set (works st) \<or> (\<exists>w\<in>set (works st). w' = recounted w)"
  using set_replace_work
  by (fastforce simp: api_work_status_get_def Let_def case_prod_beta recalc_Some
           split: sum.splits option.splits if_splits dest: findById_in_works)

lemma recompute_works:
  "w' \<in> set (works (fst (api_work_recompute_totals t st)))
   \<Longrightarrow> w' \<in> set (works st) \<or> (\<exists>w\<in>set (works st). w' = recounted w)"
  using fold_recalc_works [of w' "works st" "(st, [])"]
  by (auto simp: api_work_recompute_totals_def Let_def case_prod_beta split: list.splits)

text \<open>
  A document of the store after a request was there before, or is a new assignment with
  no status entry, or is a stored document with its counts recalculated, possibly after
  the status change of the request.
\<close>

lemma handle_works:
  assumes "w' \<in> set (works (fst (handle L t r st)))"
  shows "w' \<in> set (works st) \<or>
       (status w' = Some [] \<and> counts w' = Some (tally [])) \<or>
       (\<exists>w\<in>set (works st). w' = recounted w) \<or>
       (\<exists>wid b. r = PostWorkStatus wid b \<and>
          (\<exists>w\<in>set (works st). \<exists>w2.
             upsert_status L t (str_of (b ''userId'')) (str_of (b ''username''))
               (str_of (b ''state'')) w = Inr w2 \<and> w' = recounted w2))"
proof (cases r)
  case (PostRegister b)
  with assms show ?thesis using register_works [of L t b st] by simp
next
  case (PostLogin b)
  with assms show ?thesis using login_works [of L b st] by simp
next
  case (PostWorkAdd b)
  with assms show ?thesis using add_works [of w' L t b st] by auto
next
  case (DeleteWork wid)
  with assms show ?thesis using delete_works [of w' L t wid st] by auto
next
  case (PostWorkStatus wid b)
  with assms show ?thesis using status_post_works [of w' L t wid b st] by auto
next
  case (GetWorkStatus wid)
  with assms show ?thesis using status_get_works [of w' L wid st] by auto
next
  case GetWorkTotals
  with assms show ?thesis by (simp add: api_work_totals_get_def)
next
  case PostRecomputeTotals
  with assms show ?thesis using recompute_works [of w' t st] by auto
qed

subsection \<open>Counts and status list agree\<close>

lemma consistent_recounted: "counts_consistent (recounted w)"
  by (simp add: counts_consistent_def recounted_def status_or_empty_def tally_sum)

lemma consistent_new:
  "status w = Some [] \<Longrightarrow> counts w = Some (tally []) \<Longrightarrow> counts_consistent w"
  by (simp add: counts_consistent_def status_or_empty_def tally_def)

lemma handle_consistent:
  assumes "\<forall>w\<in>set (works st). counts_consistent w"
  shows "\<forall>w\<in>set (works (fst (handle L t r st))). counts_consistent w"
proof
  fix w' assume "w' \<in> set (works (fst (handle L t r st)))"
  from handle_works [OF this] assms show "counts_consistent w'"
    by (auto simp: consistent_recounted intro: consistent_new)
qed

lemma run_consistent:
  "\<forall>w\<in>set (works st). counts_consistent w
   \<Longrightarrow> \<forall>w\<in>set (works (run L rs st)). counts_consistent w"
proof (induction rs arbitrary: st)
  case Nil
  then show ?case by simp
next
  case (Cons a rs)
  obtain t r where a: "a = (t, r)" by (cases a)
  show ?case unfolding a run.simps
    by (rule Cons.IH) (rule handle_consistent [OF Cons.prems])
qed

lemma upsert_work_id: "upsert_status L t uid un stt w = Inr w2 \<Longrightarrow> work_id w2 = work_id w"
  by (auto simp: upsert_status_def split: option.splits)

lemma status_post_target:
  assumes "status_code (snd (api_work_status_post L t wid b st)) = 200"
  shows "\<exists>w. findById L (fst (api_work_status_post L t wid b st)) wid = Inr (Some w)
             \<and> counts_consistent w"
proof -
  let ?u = "upsert_status L t (str_of (b ''userId'')) (str_of (b ''username''))
              (str_of (b ''state''))"
  from assms obtain i w w2 where
    i: "castObjectId L wid = Some i" and w: "find (\<lambda>d. work_id d = i) (works st) = Some w"
    and w2: "?u w = Inr w2"
    and st': "fst (api_work_status_post L t wid b st)
              = fst (recomputeAndSaveGlobalTotals (now t) (replace_work st (recounted w2)))"
    by (auto simp: api_work_status_post_def Let_def case_prod_beta recalc_Some respond_def
          caught_def findById_def split: sum.splits option.splits if_splits)
  have "work_id w = i" using find_Some_holds [OF w] .
  with upsert_work_id [OF w2] have id: "work_id (recounted w2) = i" by simp
  have "find (\<lambda>d. work_id d = i) (works (replace_work st (recounted w2))) = Some (recounted w2)"
    using find_map_replace [OF w, of "recounted w2"] id by (simp add: replace_work_def)
  then have "findById L (fst (api_work_status_post L t wid b st)) wid
               = Inr (Some (recounted w2))"
    by (simp add: st' findById_def i)
  then show ?thesis using consistent_recounted by blast
qed

text \<open>
  Claim C1. The cached counts of every assignment add up to the length of its status
  list after any sequence of requests, status upserts among them, on a store where they
  did before (the empty store, for one); and after a successful status upsert the
  assignment it addressed has counts that add up to the length of its status list,
  whatever the store was before.
\<close>

theorem counts_sum_is_status_length:
  "((\<forall>w\<in>set (works st). counts_consistent w) \<longrightarrow>
      (\<forall>w\<in>set (works (run L rs st)). counts_consistent w)) \<and>
   (status_code (snd (api_work_status_post L t wid b st)) = 200 \<longrightarrow>
      (\<exists>w. findById L (fst (api_work_status_post L t wid b st)) wid = Inr (Some w)
           \<and> counts_consistent w))"
  using run_consistent [of st L rs] status_post_target [of L t wid b st] by blast

theorem counts_sum_is_status_length_witness:
  "works (run hex_runtime
      [(at 1, hw1),
       (at 2, set_status ''0000000000000000000000a1'' ''doing''),
       (at 3, set_status ''0000000000000000000000a1'' ''completed''),
       (at 4, set_status ''0000000000000000000000a2'' ''not yet started'')] empty_store)
     = [work1 (Some [\<lparr>userId = Some ''0000000000000000000000a1'', username = ''n'',
                      state = ''completed'', status_entry.updatedAt = 3\<rparr>,
                     \<lparr>userId = Some ''0000000000000000000000a2'', username = ''n'',
                      state = ''not yet started'', status_entry.updatedAt = 4\<rparr>])
              (Some \<lparr>counts_doc.completed = 1, counts_doc.doing = 0,
                     counts_doc.notYetStarted = 1\<rparr>)\<lparr>createdAt := 1\<rparr>] \<and>
   list_all counts_consistent (works (run hex_runtime
      [(at 1, hw1),
       (at 2, set_status ''0000000000000000000000a1'' ''doing''),
       (at 3, set_status ''0000000000000000000000a1'' ''completed''),
       (at 4, set_status ''0000000000000000000000a2'' ''not yet started'')] empty_store)) \<and>
   status_code (snd (api_work_status_post hex_runtime (at 5) ''000000000000000000000001''
      (status_body ''0000000000000000000000a1'' ''doing'')
      (store1 [work1 (Some [entry ''0000000000000000000000a2'' ''completed'']) None]))) = 200 \<and>
   (\<exists>w. findById hex_runtime
          (fst (api_work_status_post hex_runtime (at 5) ''000000000000000000000001''
            (status_body ''0000000000000000000000a1'' ''doing'')
            (store1 [work1 (Some [entry ''0000000000000000000000a2'' ''completed'']) None])))
          ''000000000000000000000001'' = Inr (Some w) \<and> counts_consistent w)"
proof -
  let ?rs = "[(at 1, hw1),
       (at 2, set_status ''0000000000000000000000a1'' ''doing''),
       (at 3, set_status ''0000000000000000000000a1'' ''completed''),
       (at 4, set_status ''0000000000000000000000a2'' ''not yet started'')]"
  let ?st = "store1 [work1 (Some [entry ''0000000000000000000000a2'' ''completed'']) None]"
  let ?b = "status_body ''0000000000000000000000a1'' ''doing''"
  note inst1 = counts_sum_is_status_length [where st = "empty_store :: string store"
      and L = hex_runtime and rs = ?rs]
  note inst2 = counts_sum_is_status_length [where st = ?st and L = hex_runtime and t = "at 5"
      and wid = "''000000000000000000000001''" and b = ?b]
  have init: "\<forall>w\<in>set (works (empty_store :: string store)). counts_consistent w"
    by (simp add: empty_store_def)
  have ok: "status_code (snd (api_work_status_post hex_runtime (at 5)
      ''000000000000000000000001'' ?b ?st)) = 200"
    by (simp add: eval_defs)
  have run: "works (run hex_runtime ?rs empty_store)
     = [work1 (Some [\<lparr>userId = Some ''0000000000000000000000a1'', username = ''n'',
                      state = ''completed'', status_entry.updatedAt = 3\<rparr>,
                     \<lparr>userId = Some ''0000000000000000000000a2'', username = ''n'',
                      state = ''not yet started'', status_entry.updatedAt = 4\<rparr>])
              (Some \<lparr>counts_doc.completed = 1, counts_doc.doing = 0,
                     counts_doc.notYetStarted = 1\<rparr>)\<lparr>createdAt := 1\<rparr>]"
    by (simp add: eval_defs)
  from inst1 init have "list_all counts_consistent (works (run hex_runtime ?rs empty_store))"
    by (simp add: list_all_iff)
  moreover from inst2 ok have "\<exists>w. findById hex_runtime
          (fst (api_work_status_post hex_runtime (at 5) ''000000000000000000000001'' ?b ?st))
          ''000000000000000000000001'' = Inr (Some w) \<and> counts_consistent w"
    by blast
  ultimately show ?thesis using ok run by blast
qed

subsection \<open>One status entry per user identifier\<close>

lemma findIndex_None: "findIndex p xs = None \<Longrightarrow> \<forall>x\<in>set xs. \<not> p x"
  by (induction xs) (auto split: if_splits)

lemma findIndex_Some: "findIndex p xs = Some i \<Longrightarrow> i < length xs \<and> p (xs ! i)"
  by (induction xs arbitrary: i) (auto split: if_splits)

text \<open>
  What the upsert does to the stored identifiers: either an entry that prints as the
  request string exists, and no identifier changes; or none does, and the identifier
  that the request string casts to is appended.
\<close>

lemma upsert_status_ids:
  assumes "upsert_status L t uid un stt w = Inr w2"
  shows "(\<exists>ss. status w = Some ss \<and> map userId (status_or_empty w2) = map userId ss \<and>
            (\<exists>s\<in>set ss. map_option (oid_toString L) (userId s) = Some uid)) \<or>
         (\<exists>ss i. status w = Some ss \<and> castObjectId L uid = Some i \<and>
            map userId (status_or_empty w2) = map userId ss @ [Some i] \<and>
            (\<forall>s\<in>set ss. map_option (oid_toString L) (userId s) \<noteq> Some uid))"
proof -
  from assms obtain ss where ss: "status w = Some ss"
    by (auto simp: upsert_status_def split: option.splits)
  let ?p = "\<lambda>s. map_option (oid_toString L) (userId s) = Some uid"
  show ?thesis
  proof (cases "findIndex ?p ss")
    case None
    with assms ss obtain i where "castObjectId L uid = Some i"
      and "map userId (status_or_empty w2) = map userId ss @ [Some i]"
      by (auto simp: upsert_status_def status_or_empty_def split: option.splits)
    with findIndex_None [OF None] ss show ?thesis by simp
  next
    case (Some k)
    from findIndex_Some [OF Some] have k: "k < length ss" and pk: "?p (ss ! k)" by simp_all
    from assms ss Some
    have "map userId (status_or_empty w2) = (map userId ss)[k := userId (ss ! k)]"
      by (auto simp: upsert_status_def status_or_empty_def map_update)
    also have "\<dots> = map userId ss" using k by (simp add: list_update_same_conv)
    finally show ?thesis using ss k pk nth_mem [OF k] by blast
  qed
qed

text \<open>
  For request strings in canonical form the upsert keeps the stored identifiers of a
  status list distinct, and so does every sequence of requests whose status upserts
  carry canonical strings.
\<close>

lemma upsert_status_distinct:
  assumes "canonical L uid" and "upsert_status L t uid un stt w = Inr w2" and "ids_distinct w"
  shows "ids_distinct w2"
  using upsert_status_ids [OF assms(2)] assms(1,3)
  by (force simp: ids_distinct_def status_or_empty_def canonical_def)

lemma handle_ids_distinct:
  assumes "\<forall>w\<in>set (works st). ids_distinct w" and "canonical_request L r"
  shows "\<forall>w\<in>set (works (fst (handle L t r st))). ids_distinct w"
proof
  fix w' assume "w' \<in> set (works (fst (handle L t r st)))"
  from handle_works [OF this] show "ids_distinct w'"
  proof (elim disjE)
    assume "w' \<in> set (works st)"
    with assms show ?thesis by simp
  next
    assume "status w' = Some [] \<and> counts w' = Some (tally [])"
    then show ?thesis by (simp add: ids_distinct_def status_or_empty_def)
  next
    assume "\<exists>w\<in>set (works st). w' = recounted w"
    with assms show ?thesis by (auto simp: ids_distinct_def status_or_empty_def recounted_def)
  next
    assume "\<exists>wid b. r = PostWorkStatus wid b \<and>
          (\<exists>w\<in>set (works st). \<exists>w2.
             upsert_status L t (str_of (b ''userId'')) (str_of (b ''username''))
               (str_of (b ''state'')) w = Inr w2 \<and> w' = recounted w2)"
    then obtain wid b w w2 where r: "r = PostWorkStatus wid b" and w: "w \<in> set (works st)"
      and u: "upsert_status L t (str_of (b ''userId'')) (str_of (b ''username''))
               (str_of (b ''state'')) w = Inr w2" and w': "w' = recounted w2"
      by blast
    from assms r have "canonical L (str_of (b ''userId''))" by simp
    from upsert_status_distinct [OF this u] assms w have "ids_distinct w2" by simp
    then show ?thesis by (simp add: w' ids_distinct_def status_or_empty_def recounted_def)
  qed
qed

lemma run_ids_distinct:
  "\<forall>w\<in>set (works st). ids_distinct w \<Longrightarrow> \<forall>(t, r)\<in>set rs. canonical_request L r
   \<Longrightarrow> \<forall>w\<in>set (works (run L rs st)). ids_distinct w"
proof (induction rs arbitrary: st)
  case Nil
  then show ?case by simp
next
  case (Cons a rs)
  obtain t r where a: "a = (t, r)" by (cases a)
  with Cons.prems have c: "canonical_request L r"
    and rest: "\<forall>(t, r)\<in>set rs. canonical_request L r"
    by simp_all
  show ?case unfolding a run.simps
    by (rule Cons.IH [OF handle_ids_distinct [OF Cons.prems(1) c] rest])
qed

text \<open>
  A request string that casts to an identifier printing differently never matches the
  entry it created: each such request appends one more entry with the same identifier.
\<close>

lemma upsert_status_appends:
  assumes "status w = Some ss" and "castObjectId L uid = Some i"
    and "\<forall>s\<in>set ss. map_option (oid_toString L) (userId s) \<noteq> Some uid"
  shows "upsert_status L t uid un stt w =
           Inr (w\<lparr>status := Some (ss @ [\<lparr>userId = Some i, username = un, state = stt,
                                           status_entry.updatedAt = now t\<rparr>])\<rparr>)"
proof -
  have "findIndex (\<lambda>s. map_option (oid_toString L) (userId s) = Some uid) ss = None"
    using assms(3) by (induction ss) auto
  with assms(1,2) show ?thesis by (simp add: upsert_status_def)
qed

text \<open>
  Claim C2, at the input where the code departs from it. On a new assignment, two status
  upserts for the user identifier \<open>0000000000000000000000A1\<close>, written with an upper-case
  digit, leave two status entries with the same stored identifier: the stored identifier
  prints in lower case, so the second request finds no match and appends.
\<close>

theorem uppercase_id_twice:
  "map (\<lambda>w. map userId (status_or_empty w))
     (works (run hex_runtime
        [(at 1, hw1),
         (at 2, set_status ''0000000000000000000000A1'' ''doing''),
         (at 3, set_status ''0000000000000000000000A1'' ''completed'')] empty_store))
   = [[Some ''0000000000000000000000a1'', Some ''0000000000000000000000a1'']]"
  by (simp add: eval_defs)

theorem uppercase_id_twice_witness:
  "\<not> list_all ids_distinct
       (works (run hex_runtime
          [(at 1, hw1),
           (at 2, set_status ''0000000000000000000000A1'' ''doing''),
           (at 3, set_status ''0000000000000000000000A1'' ''completed'')] empty_store))"
proof -
  have "list_all ids_distinct ws
          = list_all distinct (map (\<lambda>w. map userId (status_or_empty w)) ws)"
    for ws :: "string work_doc list"
    by (simp add: list_all_iff ids_distinct_def)
  then show ?thesis by (simp only: uppercase_id_twice) simp
qed

subsection \<open>Validation of the state\<close>

lemma isValidState_iff:
  "isValidState s \<longleftrightarrow>
     s = Some ''completed'' \<or> s = Some ''doing'' \<or> s = Some ''not yet started''"
  by (auto simp: isValidState_def)

text \<open>
  Claim C6. A status upsert whose state is not exactly "completed", "doing" or
  "not yet started" (an absent state too) is answered with status 400 and a body whose
  \<open>success\<close> is false, and the store is unchanged. A state that is one of the three
  strings is valid, and the request is then not answered with 400 when the user
  identifier and the username are given.
\<close>

theorem status_state_validated:
  "(b ''state'' \<notin> {Some ''completed'', Some ''doing'', Some ''not yet started''} \<longrightarrow>
      fst (api_work_status_post L t wid b st) = st \<and>
      status_code (snd (api_work_status_post L t wid b st)) = 400 \<and>
      map_of (json (snd (api_work_status_post L t wid b st))) ''success'' = Some (JBool False)) \<and>
   (b ''state'' \<in> {Some ''completed'', Some ''doing'', Some ''not yet started''} \<longrightarrow>
      isValidState (b ''state'') \<and>
      (truthy (b ''userId'') \<and> truthy (b ''username'') \<longrightarrow>
         status_code (snd (api_work_status_post L t wid b st)) \<noteq> 400))"
proof (intro conjI impI)
  assume "b ''state'' \<notin> {Some ''completed'', Some ''doing'', Some ''not yet started''}"
  then have inv: "\<not> isValidState (b ''state'')" by (simp add: isValidState_iff)
  then show "fst (api_work_status_post L t wid b st) = st"
    and "status_code (snd (api_work_status_post L t wid b st)) = 400"
    and "map_of (json (snd (api_work_status_post L t wid b st))) ''success'' = Some (JBool False)"
    by (simp_all add: api_work_status_post_def Let_def respond_def)
next
  assume v: "b ''state'' \<in> {Some ''completed'', Some ''doing'', Some ''not yet started''}"
  then show ok: "isValidState (b ''state'')" by (simp add: isValidState_iff)
  assume "truthy (b ''userId'') \<and> truthy (b ''username'')"
  moreover have "truthy (b ''state'')" using v by (auto simp: truthy_def)
  ultimately show "status_code (snd (api_work_status_post L t wid b st)) \<noteq> 400"
    using ok
    by (simp add: api_work_status_post_def Let_def respond_def caught_def case_prod_beta
          split: sum.splits option.splits)
qed

theorem status_state_validated_witness:
  "status_body ''0000000000000000000000a1'' ''Completed'' ''state''
     \<notin> {Some ''completed'', Some ''doing'', Some ''not yet started''} \<and>
   api_work_status_post hex_runtime (at 5) ''000000000000000000000001''
      (status_body ''0000000000000000000000a1'' ''Completed'') (store1 [work1 (Some []) None])
     = (store1 [work1 (Some []) None],
        \<lparr>status_code = 400,
         json = [(''success'', JBool False), (''message'', JStr ''Invalid state'')]\<rparr>) \<and>
   status_body ''0000000000000000000000a1'' ''doing'' ''state''
     \<in> {Some ''completed'', Some ''doing'', Some ''not yet started''} \<and>
   truthy (status_body ''0000000000000000000000a1'' ''doing'' ''userId'') \<and>
   truthy (status_body ''0000000000000000000000a1'' ''doing'' ''username'') \<and>
   status_code (snd (api_work_status_post hex_runtime (at 5) ''000000000000000000000001''
      (status_body ''0000000000000000000000a1'' ''doing'') (store1 [work1 (Some []) None])))
     = 200"
  using status_state_validated [of "status_body ''0000000000000000000000a1'' ''Completed''"
      hex_runtime "at 5" "''000000000000000000000001''" "store1 [work1 (Some []) None]"]
    status_state_validated [of "status_body ''0000000000000000000000a1'' ''doing''"
      hex_runtime "at 5" "''000000000000000000000001''" "store1 [work1 (Some []) None]"]
  by (simp add: eval_defs)

subsection \<open>The global totals\<close>





lemma length_replace_work [simp]: "length (works (replace_work st w)) = length (works st)"
  by (simp add: replace_work_def)

lemma totals_replace_work [simp]: "totals (replace_work st w) = totals st"
  by (simp add: replace_work_def)










text \<open>
  Claim C10. With no assignment record in the store, the totals recompute stores a
  WorkTotals record whose four fields are 0, whether there was a record with other
  values before or none at all.
\<close>

theorem totals_zero_without_works:
  "works st = [] \<Longrightarrow>
   (case recomputeAndSaveGlobalTotals n st of
      (st', d) \<Rightarrow>
        st' = st\<lparr>totals := Some d\<rparr> \<and>
        totals_doc.totalWorks d = 0 \<and> totals_doc.completed d = 0 \<and>
        totals_doc.doing d = 0 \<and> totals_doc.notYetStarted d = 0)"
  by (auto simp: recomputeAndSaveGlobalTotals_def aggregate_works_def Let_def new_totals_def
      split: option.splits)

theorem totals_zero_without_works_witness:
  "works (store1 []\<lparr>totals := Some stale_totals\<rparr>) = [] \<and>
   totals_fields stale_totals = (3, 4, 5, 6) \<and>
   map_option totals_fields
     (totals (fst (recomputeAndSaveGlobalTotals 8 (store1 []\<lparr>totals := Some stale_totals\<rparr>))))
     = Some (0, 0, 0, 0) \<and>
   map_option totals_fields (totals (fst (recomputeAndSaveGlobalTotals 8 (store1 []))))
     = Some (0, 0, 0, 0)"
proof -
  have e1: "works (store1 []\<lparr>totals := Some stale_totals\<rparr>) = []"
    and e2: "works (store1 [] :: string store) = []"
    by (simp_all add: store1_def)
  from totals_zero_without_works [OF e1, of 8] totals_zero_without_works [OF e2, of 8] e1
  show ?thesis
    by (auto simp: case_prod_beta totals_fields_def stale_totals_def)
qed

subsection \<open>Registration and the response envelope\<close>

text \<open>
  Claim C8. Registering with an email that a stored user has is answered with status
  400 and leaves the store unchanged, so no user is created; when email and password are
  both given, the body is the message "Email already exists".
\<close>

theorem register_existing_email:
  "b ''email'' = Some e \<and> e \<in> set (map email (users st)) \<longrightarrow>
     fst (api_register L t b st) = st \<and>
     status_code (snd (api_register L t b st)) = 400 \<and>
     (truthy (b ''email'') \<and> truthy (b ''password'') \<longrightarrow>
        json (snd (api_register L t b st)) = [(''message'', JStr ''Email already exists'')])"
proof (intro impI, elim conjE)
  assume e: "b ''email'' = Some e" and "e \<in> set (map email (users st))"
  then obtain u where "find (\<lambda>u. email u = e) (users st) = Some u"
    by (cases "find (\<lambda>u. email u = e) (users st)") (auto simp: find_None_iff)
  then have "findOne_user st (str_of (b ''email'')) = Some u"
    by (simp add: findOne_user_def e str_of_def)
  then show "fst (api_register L t b st) = st \<and>
     status_code (snd (api_register L t b st)) = 400 \<and>
     (truthy (b ''email'') \<and> truthy (b ''password'') \<longrightarrow>
        json (snd (api_register L t b st)) = [(''message'', JStr ''Email already exists'')])"
    by (simp add: api_register_def Let_def respond_def)
qed

theorem register_existing_email_witness:
  "body [(''email'', ''alice@example.org''), (''password'', ''other'')] ''email''
     = Some ''alice@example.org'' \<and>
   ''alice@example.org'' \<in> set (map email (users (store1 []\<lparr>users := [alice]\<rparr>))) \<and>
   truthy (body [(''email'', ''alice@example.org''), (''password'', ''other'')] ''email'') \<and>
   truthy (body [(''email'', ''alice@example.org''), (''password'', ''other'')] ''password'') \<and>
   api_register hex_runtime (at 6)
      (body [(''email'', ''alice@example.org''), (''password'', ''other'')])
      (store1 []\<lparr>users := [alice]\<rparr>)
     = (store1 []\<lparr>users := [alice]\<rparr>,
        \<lparr>status_code = 400, json = [(''message'', JStr ''Email already exists'')]\<rparr>)"
proof -
  let ?b = "body [(''email'', ''alice@example.org''), (''password'', ''other'')]"
  let ?st = "store1 []\<lparr>users := [alice]\<rparr>"
  have h: "?b ''email'' = Some ''alice@example.org''"
    "''alice@example.org'' \<in> set (map email (users ?st))"
    "truthy (?b ''email'')" "truthy (?b ''password'')"
    by (simp_all add: body_def alice_def truthy_def)
  from register_existing_email [of ?b "''alice@example.org''" ?st hex_runtime "at 6"] h
  have "fst (api_register hex_runtime (at 6) ?b ?st) = ?st"
    and "snd (api_register hex_runtime (at 6) ?b ?st)
           = \<lparr>status_code = 400, json = [(''message'', JStr ''Email already exists'')]\<rparr>"
    by simp_all
  then have "api_register hex_runtime (at 6) ?b ?st
               = (?st, \<lparr>status_code = 400,
                        json = [(''message'', JStr ''Email already exists'')]\<rparr>)"
    by (simp add: prod_eq_iff)
  with h show ?thesis by blast
qed

text \<open>
  Every route on assignments answers with a body whose \<open>success\<close> is a boolean, true
  exactly for status 200, and with a \<open>message\<close> when the status is not 200.
\<close>

lemma work_routes_envelope:
  assumes "\<not> is_auth r"
  shows "map_of (json (snd (handle L t r st))) ''success''
           = Some (JBool (status_code (snd (handle L t r st)) = 200)) \<and>
         (status_code (snd (handle L t r st)) \<noteq> 200 \<longrightarrow>
            (\<exists>m. map_of (json (snd (handle L t r st))) ''message'' = Some (JStr m)))"
  using assms
  by (cases r)
     (auto simp: api_work_add_def api_work_delete_def api_work_status_post_def
        api_work_status_get_def api_work_totals_get_def api_work_recompute_totals_def
        respond_def caught_def Let_def case_prod_beta
        split: sum.splits option.splits list.splits)

text \<open>
  Claim C7, at the input where the code departs from it. A registration or a login
  without email or without password is answered with status 400 and the body
  \<open>{message: "email & password required"}\<close>, which has no \<open>success\<close> field.
\<close>

theorem auth_routes_drop_success:
  "\<not> truthy (b ''email'') \<or> \<not> truthy (b ''password'') \<Longrightarrow>
   api_register L t b st
     = (st, \<lparr>status_code = 400, json = [(''message'', JStr ''email & password required'')]\<rparr>) \<and>
   api_login L b st
     = (st, \<lparr>status_code = 400, json = [(''message'', JStr ''email & password required'')]\<rparr>) \<and>
   map_of (json (snd (api_register L t b st))) ''success'' = None \<and>
   map_of (json (snd (api_login L b st))) ''success'' = None"
  by (auto simp: api_register_def api_login_def Let_def respond_def)

theorem auth_routes_drop_success_witness:
  "\<not> truthy (body [(''password'', ''pw'')] ''email'') \<and>
   snd (handle hex_runtime (at 1) (PostRegister (body [(''password'', ''pw'')])) empty_store)
     = \<lparr>status_code = 400, json = [(''message'', JStr ''email & password required'')]\<rparr> \<and>
   map_of (json (snd (handle hex_runtime (at 1) (PostRegister (body [(''password'', ''pw'')]))
      empty_store))) ''success'' = None"
  using auth_routes_drop_success [of "body [(''password'', ''pw'')]" hex_runtime "at 1" empty_store]
  by (simp add: truthy_def body_def)

end
